theory Spec2Isabelle
  imports Main "HOL-Library.Sublist"
begin

section \<open>The testsuite driver \<^verbatim>\<open>regtests/testsuite.py\<close>\<close>

text \<open>
  The driver is a Python 2 script over the gnatpython library.  Its own code is embedded
  function by function; the library calls it makes (\<^verbatim>\<open>glob\<close>, \<^verbatim>\<open>rm\<close>,
  \<^verbatim>\<open>mkdir\<close>, \<^verbatim>\<open>MainLoop\<close>, \<^verbatim>\<open>ReportDiff\<close>) act on an explicit
  file system that is passed through the run.
\<close>

subsection \<open>Python strings\<close>

type_synonym path = string

text \<open>\<^verbatim>\<open>sep.join(xs)\<close>\<close>

fun join :: "string \<Rightarrow> string list \<Rightarrow> string" where
  "join sep [] = []"
| "join sep [x] = x"
| "join sep (x # y # ys) = x @ sep @ join sep (y # ys)"

text \<open>\<^verbatim>\<open>s.startswith(p)\<close>\<close>

fun startswith :: "string \<Rightarrow> string \<Rightarrow> bool" where
  "startswith s [] = True"
| "startswith [] (p # ps) = False"
| "startswith (c # cs) (p # ps) = (c = p \<and> startswith cs ps)"


text \<open>\<^verbatim>\<open>needle in haystack\<close> on strings: a search for the needle at every position.\<close>

fun str_in :: "string \<Rightarrow> string \<Rightarrow> bool" where
  "str_in needle [] = (needle = [])"
| "str_in needle (c # cs) = (startswith (c # cs) needle \<or> str_in needle cs)"

text \<open>\<^verbatim>\<open>s.split(sep)\<close> for a one-character separator.\<close>

fun str_split :: "char \<Rightarrow> string \<Rightarrow> string list" where
  "str_split sep [] = [[]]"
| "str_split sep (c # cs) =
     (if c = sep then [] # str_split sep cs
      else (case str_split sep cs of
              [] \<Rightarrow> [[c]]
            | r # rs \<Rightarrow> (c # r) # rs))"

text \<open>\<^verbatim>\<open>s.lower()\<close> on a byte string: the letters A to Z move to a to z.\<close>

definition is_upper :: "char \<Rightarrow> bool" where
  "is_upper c = (65 \<le> (of_char c :: nat) \<and> (of_char c :: nat) \<le> 90)"

definition char_lower :: "char \<Rightarrow> char" where
  "char_lower c = (if is_upper c then char_of ((of_char c :: nat) + 32) else c)"

definition lower :: "string \<Rightarrow> string" where
  "lower s = map char_lower s"

text \<open>The apostrophe of the message \<^verbatim>\<open>"Running only test '%s'"\<close>.\<close>

definition apostrophe :: char where
  "apostrophe = CHR 0x27"

subsection \<open>Errors\<close>

text \<open>
  The exceptions a run can end with.  \<open>AssertionError\<close> carries its message, which the
  entry point prints.
\<close>

datatype error =
    AssertionError string
  | FileUtilsError
  | IOError
  | TypeError

subsection \<open>The file system\<close>

text \<open>
  Paths are compared as the strings the script builds; \<^verbatim>\<open>.\<close>, \<^verbatim>\<open>..\<close> and links are
  not resolved.  The file system is the list of its entries, in the order in which a
  directory listing yields them.
\<close>

datatype node = Dir | File string

type_synonym fs = "(path \<times> node) list"

type_synonym matcher = "string \<Rightarrow> path \<Rightarrow> bool"

definition path_exists :: "fs \<Rightarrow> path \<Rightarrow> bool" where
  "path_exists fs p = (map_of fs p \<noteq> None)"

definition isdir :: "fs \<Rightarrow> path \<Rightarrow> bool" where
  "isdir fs p = (map_of fs p = Some Dir)"


text \<open>
  \<^verbatim>\<open>glob(pattern)\<close>: the existing paths that match the pattern, in listing order.  What
  it means for a path to match a pattern (\<^verbatim>\<open>fnmatch\<close>) is a parameter.
\<close>

definition glob :: "matcher \<Rightarrow> fs \<Rightarrow> string \<Rightarrow> path list" where
  "glob matches fs pattern = filter (matches pattern) (map fst fs)"

text \<open>
  A matcher to run examples with: \<^verbatim>\<open>*\<close> stands for any run of characters other than
  \<^verbatim>\<open>/\<close>, every other character for itself.
\<close>

fun star_match :: matcher where
  "star_match [] [] = True"
| "star_match [] (c # cs) = False"
| "star_match (p # ps) [] = (p = CHR ''*'' \<and> star_match ps [])"
| "star_match (p # ps) (c # cs) =
     (if p = CHR ''*''
      then star_match ps (c # cs) \<or> (c \<noteq> CHR ''/'' \<and> star_match (p # ps) cs)
      else p = c \<and> star_match ps cs)"




subsection \<open>Test discovery: \<^verbatim>\<open>filter_list\<close>\<close>

text \<open>
  \<^verbatim>\<open>
  def filter_list(pattern, run_test=""):
      test_list = glob(pattern)
      if not run_test:
          return test_list
      else:
          return [test for test in test_list if run_test in test]
  \<close>
\<close>

definition filter_list :: "matcher \<Rightarrow> fs \<Rightarrow> string \<Rightarrow> string \<Rightarrow> path list" where
  "filter_list matches fs pattern run_test =
     (let test_list = glob matches fs pattern
      in if run_test = [] then test_list
         else [test \<leftarrow> test_list. str_in run_test test])"

subsection \<open>Option parsing: \<^verbatim>\<open>__parse_options\<close>\<close>

text \<open>
  What \<^verbatim>\<open>m.parse_args()\<close> leaves behind: the positional arguments \<^verbatim>\<open>m.args\<close> and
  the option values \<^verbatim>\<open>m.options\<close>.  An option that was not given is \<open>None\<close>.
\<close>

record main_args =
  m_args :: "string list"
  m_discs :: "string option"
  m_output_dir :: string
  m_tmp :: string
  m_host :: "string option"
  m_target :: "string option"
  m_verbose :: bool
  m_enable_cleanup :: bool
  m_view_diffs :: bool
  m_old_result_dir :: "string option"
  m_mainloop_jobs :: nat

text \<open>
  The options \<^verbatim>\<open>__parse_options\<close> returns.  \<open>discs\<close> is the list the comma-separated
  value was split into; a value that Python takes for false (\<open>None\<close>, the empty string) is
  the empty list.
\<close>

record options =
  run_test :: string
  discs :: "string list"
  output_dir :: string
  tmp :: string
  host :: "string option"
  target :: "string option"
  verbose :: bool
  enable_cleanup :: bool
  view_diffs :: bool
  old_result_dir :: "string option"
  mainloop_jobs :: nat

text \<open>
  \<^verbatim>\<open>
  if m.args:
      m.options.run_test = m.args[0]
      print "Running only test '%s'" % m.options.run_test
  else:
      m.options.run_test = ""
  if m.options.discs:
      m.options.discs = m.options.discs.split(',')
  return m.options
  \<close>
  The result is the lines printed and the options.
\<close>

definition parse_options :: "main_args \<Rightarrow> string list \<times> options" where
  "parse_options m =
     (let (printed, rt) =
            (case m_args m of
               a # _ \<Rightarrow> ([''Running only test '' @ [apostrophe] @ a @ [apostrophe]], a)
             | [] \<Rightarrow> ([], []));
          ds = (case m_discs m of
                  None \<Rightarrow> []
                | Some s \<Rightarrow> if s = [] then [] else str_split CHR '','' s)
      in (printed,
          \<lparr>run_test = rt, discs = ds, output_dir = m_output_dir m, tmp = m_tmp m,
           host = m_host m, target = m_target m, verbose = m_verbose m,
           enable_cleanup = m_enable_cleanup m, view_diffs = m_view_diffs m,
           old_result_dir = m_old_result_dir m, mainloop_jobs = m_mainloop_jobs m\<rparr>))"

subsection \<open>The discriminants and the command line of one test\<close>

text \<open>\<^verbatim>\<open>Env()\<close>: the two values of the target the script reads.\<close>

record env =
  target_platform :: string
  target_triplet :: string

text \<open>
  \<^verbatim>\<open>
  discs = ['ALL']
  discs.append('ALL')
  discs.append(env.target.platform)
  discs.append(env.target.triplet)
  if options.discs:
      discs += options.discs
  \<close>
\<close>

definition main_discs :: "env \<Rightarrow> options \<Rightarrow> string list" where
  "main_discs e opts =
     (let ds = [''ALL''];
          ds = ds @ [''ALL''];
          ds = ds @ [target_platform e];
          ds = ds @ [target_triplet e]
      in if discs opts \<noteq> [] then ds @ discs opts else ds)"

text \<open>
  \<^verbatim>\<open>
  def test_build_cmd(test, _):
      cmd = [sys.executable, 'run-test', '-d', ",".join(discs), '-o', result_dir,
             '-t', options.tmp, test]
      if options.verbose: cmd.append('-v')
      if options.host: cmd.append('--host=' + options.host)
      if options.target: cmd.append('--target=' + options.target)
      if not options.enable_cleanup: cmd.append('--disable-cleanup')
      return Run(cmd, bg=True)
  \<close>
  The result is the command handed to \<^verbatim>\<open>Run\<close>.  An option value counts as true when it
  is given and not the empty string.
\<close>

definition truthy :: "string option \<Rightarrow> bool" where
  "truthy v = (case v of None \<Rightarrow> False | Some s \<Rightarrow> s \<noteq> [])"

definition test_build_cmd ::
  "string \<Rightarrow> string list \<Rightarrow> string \<Rightarrow> options \<Rightarrow> string \<Rightarrow> string list" where
  "test_build_cmd executable ds result_dir opts test =
     (let cmd = [executable, ''run-test'', ''-d'', join '','' ds, ''-o'', result_dir,
                 ''-t'', tmp opts, test];
          cmd = (if verbose opts then cmd @ [''-v''] else cmd);
          cmd = (if truthy (host opts) then cmd @ [''--host='' @ the (host opts)] else cmd);
          cmd = (if truthy (target opts)
                 then cmd @ [''--target='' @ the (target opts)] else cmd);
          cmd = (if \<not> enable_cleanup opts then cmd @ [''--disable-cleanup''] else cmd)
      in cmd)"

subsection \<open>The search path of the auxiliary drivers\<close>

text \<open>
  \<^verbatim>\<open>
  PLATFORM = os.environ.get("PLATFORM")
  PRJ_BUILD = os.environ.get("PRJ_BUILD")
  if PLATFORM == None: PLATFORM = "native"
  else: PLATFORM = PLATFORM.lower()
  if PRJ_BUILD == None: PRJ_BUILD = "debug"
  else: PRJ_BUILD = PRJ_BUILD.lower()
  ep = os.getcwd() + "/../.build/" + PLATFORM + "/" + PRJ_BUILD + "/static/"
  os.environ["PATH"] = os.environ.get("PATH") + os.pathsep + ep \
          + "bin" + os.pathsep + ep + "rbin"
  \<close>
  The environment is a map from names to values.  With \<^verbatim>\<open>PATH\<close> unset the sum of
  \<open>None\<close> and a string raises \<open>TypeError\<close>.
\<close>

type_synonym environ = "string \<rightharpoonup> string"

definition PLATFORM :: "environ \<Rightarrow> string" where
  "PLATFORM environ =
     (case environ ''PLATFORM'' of None \<Rightarrow> ''native'' | Some v \<Rightarrow> lower v)"

definition PRJ_BUILD :: "environ \<Rightarrow> string" where
  "PRJ_BUILD environ =
     (case environ ''PRJ_BUILD'' of None \<Rightarrow> ''debug'' | Some v \<Rightarrow> lower v)"

definition ep :: "string \<Rightarrow> environ \<Rightarrow> string" where
  "ep cwd environ =
     cwd @ ''/../.build/'' @ PLATFORM environ @ ''/'' @ PRJ_BUILD environ @ ''/static/''"

definition set_search_path :: "string \<Rightarrow> string \<Rightarrow> environ \<Rightarrow> error + environ" where
  "set_search_path pathsep cwd environ =
     (case environ ''PATH'' of
        None \<Rightarrow> Inl TypeError
      | Some p \<Rightarrow>
          Inr (environ(''PATH'' \<mapsto>
                 p @ pathsep @ ep cwd environ @ ''bin'' @ pathsep @ ep cwd environ @ ''rbin'')))"

subsection \<open>The library's file operations\<close>

text \<open>
  \<^verbatim>\<open>rm(path, True)\<close> of \<^verbatim>\<open>gnatpython.fileutils\<close>, the second argument asking for
  a recursive removal.  The library expands the argument as a glob pattern
  (\<^verbatim>\<open>ls(path)\<close>); every path so found goes, and with it every entry below it.  A
  pattern that finds nothing is not an error.
\<close>

definition rm :: "matcher \<Rightarrow> fs \<Rightarrow> path \<Rightarrow> fs" where
  "rm matches fs p =
     (let file_list = glob matches fs p
      in filter (\<lambda>(q, n). \<not> list_ex (\<lambda>f. q = f \<or> startswith q (f @ ''/'')) file_list) fs)"

text \<open>
  The directories above a path: its proper prefixes that end before a \<^verbatim>\<open>/\<close>, the
  shortest first.
\<close>

fun ancestors_from :: "path \<Rightarrow> string \<Rightarrow> path list" where
  "ancestors_from pre [] = []"
| "ancestors_from pre (c # cs) =
     (if c = CHR ''/'' \<and> pre \<noteq> [] then pre # ancestors_from (pre @ [c]) cs
      else ancestors_from (pre @ [c]) cs)"

definition ancestors :: "path \<Rightarrow> path list" where
  "ancestors p = ancestors_from [] p"

text \<open>
  \<^verbatim>\<open>os.makedirs\<close>, on the directories above the path and then the path: a directory
  that is there is passed over, a missing one is made, and a file in the place of one of
  them is an error.
\<close>

fun makedirs :: "fs \<Rightarrow> path list \<Rightarrow> error + fs" where
  "makedirs fs [] = Inr fs"
| "makedirs fs (d # ds) =
     (if isdir fs d then makedirs fs ds
      else if path_exists fs d then Inl FileUtilsError
      else makedirs (fs @ [(d, Dir)]) ds)"

text \<open>
  \<^verbatim>\<open>mkdir(path)\<close> of \<^verbatim>\<open>gnatpython.fileutils\<close>: nothing to do for a directory that
  is there; otherwise \<^verbatim>\<open>os.makedirs(path)\<close>, whose failure (the empty path, a file in
  the way) is raised as \<open>FileUtilsError\<close>.
\<close>

definition mkdir :: "fs \<Rightarrow> path \<Rightarrow> error + fs" where
  "mkdir fs p =
     (if isdir fs p then Inr fs
      else if p = [] then Inl FileUtilsError
      else makedirs fs (ancestors p @ [p]))"

text \<open>\<^verbatim>\<open>os.path.dirname\<close>: the path up to its last \<^verbatim>\<open>/\<close>, empty when it has none.\<close>

definition dirname :: "path \<Rightarrow> path" where
  "dirname p = rev (tl (dropWhile (\<lambda>c. c \<noteq> CHR ''/'') (rev p)))"

text \<open>
  \<^verbatim>\<open>with open(path, 'w') as f: f.write(s)\<close>: \<open>IOError\<close> when the path is a directory or
  its directory is missing; otherwise the file holds \<open>s\<close> and nothing else.  A path with
  no directory part lies in the working directory.
\<close>

definition write_file :: "fs \<Rightarrow> path \<Rightarrow> string \<Rightarrow> error + fs" where
  "write_file fs p s =
     (case map_of fs p of
        Some Dir \<Rightarrow> Inl IOError
      | Some (File old) \<Rightarrow> Inr (map (\<lambda>(q, n). if q = p then (q, File s) else (q, n)) fs)
      | None \<Rightarrow>
          if dirname p = [] \<or> isdir fs (dirname p) then Inr (fs @ [(p, File s)])
          else Inl IOError)"

subsection \<open>Clearing the result directory\<close>

text \<open>
  Lines 65 to 71 of \<^verbatim>\<open>main\<close>:
  \<^verbatim>\<open>
  if os.path.exists(result_dir):
      for file in (results_file, result_dir + '/report', 'discs'):
          rm(file, True)
      for ext in ('.diff', '.expected', '.out', '.result'):
          for file in glob(result_dir + '/*' + ext):
              rm(file, True)
  mkdir(result_dir)
  \<close>
  The third file of the first loop is the path \<^verbatim>\<open>discs\<close> as it stands, in the working
  directory.
\<close>

definition artifact_exts :: "string list" where
  "artifact_exts = [''.diff'', ''.expected'', ''.out'', ''.result'']"

definition rm_artifacts :: "matcher \<Rightarrow> path \<Rightarrow> fs \<Rightarrow> string \<Rightarrow> fs" where
  "rm_artifacts matches result_dir fs ext =
     foldl (rm matches) fs (glob matches fs (result_dir @ ''/*'' @ ext))"

definition result_dir_manager :: "matcher \<Rightarrow> fs \<Rightarrow> path \<Rightarrow> path \<Rightarrow> error + fs" where
  "result_dir_manager matches fs result_dir results_file =
     (let fs =
            (if path_exists fs result_dir
             then (let fs = foldl (rm matches) fs
                              [results_file, result_dir @ ''/report'', ''discs'']
                   in foldl (rm_artifacts matches result_dir) fs artifact_exts)
             else fs)
      in mkdir fs result_dir)"

subsection \<open>The run: \<^verbatim>\<open>main\<close>\<close>

text \<open>
  \<^verbatim>\<open>MainLoop(test_list, test_build_cmd, collect_result, jobs)\<close> runs the command of
  every test and collects the results into the result directory; what the tests do to
  the file system, and whether the loop raises, is a parameter.  It is given the commands
  \<^verbatim>\<open>test_build_cmd\<close> builds, the arguments of \<^verbatim>\<open>generate_collect_result\<close> and the
  number of jobs.
\<close>

type_synonym mainloop =
  "string list list \<Rightarrow> path \<Rightarrow> path \<Rightarrow> bool \<Rightarrow> nat \<Rightarrow> fs \<Rightarrow> error + fs"

text \<open>
  \<^verbatim>\<open>ReportDiff(result_dir, old_result_dir).txt_image(filename)\<close> renders the report and
  writes it to the file; the text it renders, or the exception it raises, is a parameter.
\<close>

type_synonym report_diff = "fs \<Rightarrow> path \<Rightarrow> path option \<Rightarrow> error + string"

text \<open>
  \<^verbatim>\<open>main\<close>, lines 52 to 107.  The result is the lines printed and either the exception
  that ended the run or the file system it leaves.  \<^verbatim>\<open>env.add_search_path\<close> changes
  the environment of the subprocesses only and is left out.
\<close>

definition main ::
  "matcher \<Rightarrow> mainloop \<Rightarrow> report_diff \<Rightarrow> env \<Rightarrow> string \<Rightarrow> main_args \<Rightarrow> fs
   \<Rightarrow> string list \<times> (error + fs)" where
  "main matches run_mainloop report e executable m fs =
     (let (printed, opts) = parse_options m;
          test_list = [t \<leftarrow> filter_list matches fs ''tests/*'' (run_test opts). isdir fs t];
          result_dir = output_dir opts;
          results_file = result_dir @ ''/results''
      in (printed,
          case result_dir_manager matches fs result_dir results_file of
            Inl err \<Rightarrow> Inl err
          | Inr fs1 \<Rightarrow>
              (let ds = main_discs e opts;
                   cmds = map (test_build_cmd executable ds result_dir opts) test_list
               in case run_mainloop cmds result_dir results_file (view_diffs opts)
                         (mainloop_jobs opts) fs1 of
                    Inl err \<Rightarrow> Inl err
                  | Inr fs2 \<Rightarrow>
                      (case write_file fs2 (result_dir @ ''/discs'') (join '' '' ds) of
                         Inl err \<Rightarrow> Inl err
                       | Inr fs3 \<Rightarrow>
                           (case report fs3 result_dir (old_result_dir opts) of
                              Inl err \<Rightarrow> Inl err
                            | Inr txt \<Rightarrow> write_file fs3 (result_dir @ ''/report'') txt)))))"

subsection \<open>The entry point\<close>

text \<open>
  \<^verbatim>\<open>
  if __name__ == "__main__":
      try:
          main()
      except AssertionError, e:
          print 'ERROR: %s' % e
  \<close>
  What the process shows for a run: the lines on standard output, the exception whose
  traceback the interpreter prints when none of the handlers took it, and the exit
  status.  A script that reaches its end exits with status 0; an exception that nothing
  catches ends it with a traceback and status 1.
\<close>

record process =
  stdout :: "string list"
  traceback :: "error option"
  exit_status :: nat

definition entry_point :: "string list \<times> (error + fs) \<Rightarrow> process" where
  "entry_point r =
     (case r of
        (printed, Inr fs') \<Rightarrow> \<lparr>stdout = printed, traceback = None, exit_status = 0\<rparr>
      | (printed, Inl err) \<Rightarrow>
          (case err of
             AssertionError e \<Rightarrow>
               \<lparr>stdout = printed @ [''ERROR: '' @ e], traceback = None, exit_status = 0\<rparr>
           | _ \<Rightarrow> \<lparr>stdout = printed, traceback = Some err, exit_status = 1\<rparr>))"

definition script ::
  "matcher \<Rightarrow> mainloop \<Rightarrow> report_diff \<Rightarrow> env \<Rightarrow> string \<Rightarrow> main_args \<Rightarrow> fs \<Rightarrow> process" where
  "script matches run_mainloop report e executable m fs =
     entry_point (main matches run_mainloop report e executable m fs)"

subsection \<open>A sample run\<close>

text \<open>
  Inputs to run the definitions on: no option given but the output directory, a result
  directory left by an earlier run, a file \<^verbatim>\<open>discs\<close> beside it in the working
  directory, and no test directory at all.
\<close>

definition example_args :: main_args where
  "example_args =
     \<lparr>m_args = [], m_discs = None, m_output_dir = ''out'', m_tmp = ''tmp'',
      m_host = None, m_target = None, m_verbose = False, m_enable_cleanup = True,
      m_view_diffs = False, m_old_result_dir = None, m_mainloop_jobs = 1\<rparr>"

definition example_env :: env where
  "example_env =
     \<lparr>target_platform = ''x86_64-linux'', target_triplet = ''x86_64-pc-linux-gnu''\<rparr>"

definition example_fs :: fs where
  "example_fs =
     [(''out'', Dir), (''out/results'', File ''a:OK''), (''out/report'', File ''old''),
      (''out/discs'', File ''ALL old''), (''out/a.diff'', File ''d''),
      (''out/a.out'', File ''o''), (''out/notes.txt'', File ''keep''),
      (''discs'', File ''mine'')]"

text \<open>A main loop with nothing to run, one whose run raises, and a fixed report.\<close>

definition idle_mainloop :: mainloop where
  "idle_mainloop cmds result_dir results_file vd jobs fs = Inr fs"

definition asserting_mainloop :: mainloop where
  "asserting_mainloop cmds result_dir results_file vd jobs fs =
     Inl (AssertionError ''boom'')"

definition plain_report :: report_diff where
  "plain_report fs result_dir old = Inr ''report''"



section \<open>Properties\<close>

subsection \<open>Strings\<close>

lemma startswith_iff: "startswith s p \<longleftrightarrow> (\<exists>ss. s = p @ ss)"
  by (induction s p rule: startswith.induct) auto

text \<open>The search of \<open>str_in\<close> finds the needle exactly when it is a substring.\<close>

lemma str_in_iff_sublist: "str_in needle hay \<longleftrightarrow> sublist needle hay"
proof (induction hay)
  case Nil
  then show ?case by (auto simp: sublist_def)
next
  case (Cons c cs)
  show ?case
    by (simp add: Cons startswith_iff sublist_Cons_right prefix_def)
qed

lemma count_list_filter_le: "count_list (filter P xs) x \<le> count_list xs x"
  by (induction xs) auto

lemma not_upper_char_lower: "\<not> is_upper (char_lower c)"
  by (auto simp: is_upper_def char_lower_def)

subsection \<open>Test discovery\<close>

text \<open>
  C2.  For every pattern and every filter string \<open>f\<close>, \<open>filter_list\<close> returns the whole
  glob expansion when \<open>f\<close> is empty, and otherwise exactly the paths of the expansion that
  contain \<open>f\<close> as a substring, that is, that split into a prefix, \<open>f\<close> and a suffix.
\<close>

theorem filter_list_exact:
  "filter_list matches fs pattern f =
     (if f = [] then glob matches fs pattern
      else [t \<leftarrow> glob matches fs pattern. \<exists>ps ss. t = ps @ f @ ss])"
proof -
  have "str_in f = (\<lambda>t. \<exists>ps ss. t = ps @ f @ ss)"
    by (rule ext) (simp add: str_in_iff_sublist sublist_def)
  then show ?thesis by (simp add: filter_list_def)
qed

text \<open>The example of the specification: \<^verbatim>\<open>smoke\<close> over three test directories.\<close>

theorem filter_list_exact_witness:
  "filter_list star_match
     [(''tests'', Dir), (''tests/smoke_a'', Dir), (''tests/other'', Dir),
      (''tests/smoke_b'', Dir)] ''tests/*'' ''smoke''
   = [''tests/smoke_a'', ''tests/smoke_b'']"
proof -
  have "sublist ''smoke'' ''tests/smoke_a''" "sublist ''smoke'' ''tests/smoke_b''"
       "\<not> sublist ''smoke'' ''tests/other''"
    by code_simp+
  then show ?thesis
    using filter_list_exact [of star_match
      "[(''tests'', Dir), (''tests/smoke_a'', Dir), (''tests/other'', Dir),
        (''tests/smoke_b'', Dir)]" "''tests/*''" "''smoke''"]
    by (simp add: glob_def sublist_def)
qed

text \<open>
  C8.  The list \<open>filter_list\<close> returns is a subsequence of the glob expansion: its
  elements come from the expansion, in the expansion's order, and none occurs more often
  than the expansion has it.
\<close>

theorem filter_list_subseq:
  "subseq (filter_list matches fs pattern f) (glob matches fs pattern)
   \<and> set (filter_list matches fs pattern f) \<subseteq> set (glob matches fs pattern)
   \<and> (\<forall>x. count_list (filter_list matches fs pattern f) x
            \<le> count_list (glob matches fs pattern) x)"
  by (simp add: filter_list_def Let_def count_list_filter_le)

theorem filter_list_subseq_witness:
  "subseq (filter_list star_match [(''tests/b'', Dir), (''tests/a'', Dir)] ''tests/*'' ''a'')
     [''tests/b'', ''tests/a'']"
  using filter_list_subseq [of star_match "[(''tests/b'', Dir), (''tests/a'', Dir)]"
    "''tests/*''" "''a''"]
  by (simp add: glob_def)

subsection \<open>Option parsing\<close>

text \<open>
  C10.  With positional arguments the filter is the first of them, and the further ones
  change neither the options returned nor what is printed; with no positional argument
  the filter is the empty string.
\<close>

theorem parse_options_first_positional:
  "run_test (snd (parse_options (m\<lparr>m_args := a # rest\<rparr>))) = a
   \<and> parse_options (m\<lparr>m_args := a # rest\<rparr>) = parse_options (m\<lparr>m_args := [a]\<rparr>)
   \<and> run_test (snd (parse_options (m\<lparr>m_args := []\<rparr>))) = []"
  by (simp add: parse_options_def)

theorem parse_options_first_positional_witness:
  "run_test (snd (parse_options (example_args\<lparr>m_args := [''smoke'', ''other'']\<rparr>)))
     = ''smoke''"
  by (rule parse_options_first_positional
    [where m = example_args and a = "''smoke''" and rest = "[''other'']", THEN conjunct1])

subsection \<open>The discriminants\<close>

lemma main_discs_eq:
  "main_discs e opts =
     ''ALL'' # ''ALL'' # target_platform e # target_triplet e # discs opts"
  by (simp add: main_discs_def Let_def)

text \<open>
  C1.  The claim asks for the tag \<^verbatim>\<open>ALL\<close> exactly once.  On the sample run, with no
  discriminant given, the list \<open>main\<close> builds starts with the tag twice: line 73 puts
  it there and line 74 appends it again.
\<close>

theorem main_discs_doubles_ALL:
  "main_discs example_env (snd (parse_options example_args))
     = [''ALL'', ''ALL'', ''x86_64-linux'', ''x86_64-pc-linux-gnu'']
   \<and> count_list (main_discs example_env (snd (parse_options example_args))) ''ALL'' = 2"
  by (simp add: main_discs_def example_env_def parse_options_def example_args_def)

subsection \<open>The command line of one test\<close>

text \<open>
  C5.  The command of a test is the interpreter, \<^verbatim>\<open>run-test\<close>, \<^verbatim>\<open>-d\<close> with the
  comma-joined discriminants, \<^verbatim>\<open>-o\<close> with the output directory, \<^verbatim>\<open>-t\<close> with the
  temporary directory and the test path, followed by \<^verbatim>\<open>-v\<close> exactly when verbose is
  set, \<^verbatim>\<open>--host=\<close> with the host exactly when a host is set, \<^verbatim>\<open>--target=\<close> with the
  target exactly when a target is set, and \<^verbatim>\<open>--disable-cleanup\<close> exactly when cleanup
  is disabled, in this order.  A host or target is set when the option has a value other
  than the empty string.
\<close>

theorem test_build_cmd_shape:
  "test_build_cmd executable ds result_dir opts test =
     [executable, ''run-test'', ''-d'', join '','' ds, ''-o'', result_dir,
      ''-t'', tmp opts, test]
     @ (if verbose opts then [''-v''] else [])
     @ (if truthy (host opts) then [''--host='' @ the (host opts)] else [])
     @ (if truthy (target opts) then [''--target='' @ the (target opts)] else [])
     @ (if enable_cleanup opts then [] else [''--disable-cleanup''])
   \<and> (''-v'' \<in> set (drop 9 (test_build_cmd executable ds result_dir opts test))
        \<longleftrightarrow> verbose opts)
   \<and> ((\<exists>h. ''--host='' @ h \<in> set (drop 9 (test_build_cmd executable ds result_dir opts test)))
        \<longleftrightarrow> truthy (host opts))
   \<and> ((\<exists>t. ''--target='' @ t \<in> set (drop 9 (test_build_cmd executable ds result_dir opts test)))
        \<longleftrightarrow> truthy (target opts))
   \<and> (''--disable-cleanup'' \<in> set (drop 9 (test_build_cmd executable ds result_dir opts test))
        \<longleftrightarrow> \<not> enable_cleanup opts)"
  by (auto simp: test_build_cmd_def Let_def)

theorem test_build_cmd_shape_witness:
  "test_build_cmd ''python'' [''ALL'', ''ALL'', ''x86_64-linux''] ''out''
     (snd (parse_options (example_args\<lparr>m_host := Some ''arm'', m_enable_cleanup := False\<rparr>)))
     ''tests/t1''
   = [''python'', ''run-test'', ''-d'', ''ALL,ALL,x86_64-linux'', ''-o'', ''out'', ''-t'',
      ''tmp'', ''tests/t1'', ''--host=arm'', ''--disable-cleanup'']"
  using test_build_cmd_shape [of "''python''" "[''ALL'', ''ALL'', ''x86_64-linux'']" "''out''"
    "snd (parse_options (example_args\<lparr>m_host := Some ''arm'', m_enable_cleanup := False\<rparr>))"
    "''tests/t1''"]
  by (simp add: parse_options_def example_args_def truthy_def)

subsection \<open>The search path\<close>

text \<open>
  C9.  The platform and build components of the search path are the lowercased values of
  \<^verbatim>\<open>PLATFORM\<close> and \<^verbatim>\<open>PRJ_BUILD\<close> whenever the variable is set, whatever its value, and
  the defaults \<^verbatim>\<open>native\<close> and \<^verbatim>\<open>debug\<close> only when it is unset; the path so built is
  what is added to \<^verbatim>\<open>PATH\<close>.  A lowercased value is the value with each character
  lowered, and holds no capital letter.
\<close>

theorem ep_lowercases_environment:
  "(case environ ''PLATFORM'' of
      None \<Rightarrow> PLATFORM environ = ''native''
    | Some v \<Rightarrow> PLATFORM environ = map char_lower v
                \<and> list_all (\<lambda>c. \<not> is_upper c) (PLATFORM environ))
   \<and> (case environ ''PRJ_BUILD'' of
         None \<Rightarrow> PRJ_BUILD environ = ''debug''
       | Some v \<Rightarrow> PRJ_BUILD environ = map char_lower v
                   \<and> list_all (\<lambda>c. \<not> is_upper c) (PRJ_BUILD environ))
   \<and> ep cwd environ =
       cwd @ ''/../.build/'' @ PLATFORM environ @ ''/'' @ PRJ_BUILD environ @ ''/static/''
   \<and> set_search_path pathsep cwd environ =
       (case environ ''PATH'' of
          None \<Rightarrow> Inl TypeError
        | Some p \<Rightarrow> Inr (environ(''PATH'' \<mapsto>
            p @ pathsep @ ep cwd environ @ ''bin'' @ pathsep @ ep cwd environ @ ''rbin'')))"
  by (simp add: ep_def PLATFORM_def PRJ_BUILD_def set_search_path_def lower_def
      list_all_iff not_upper_char_lower split: option.split)

theorem ep_lowercases_environment_witness:
  "ep ''/w'' [''PLATFORM'' \<mapsto> ''X86-Linux''] = ''/w/../.build/x86-linux/debug/static/''"
proof -
  have "map char_lower ''X86-Linux'' = ''x86-linux''" by code_simp
  then show ?thesis
    using ep_lowercases_environment [of "[''PLATFORM'' \<mapsto> ''X86-Linux'']" "''/w''"]
    by simp
qed

subsection \<open>Clearing the result directory\<close>
















lemma map_of_snoc:
  "map_of fs p = None \<Longrightarrow> map_of (fs @ [(p, n)]) q = (if q = p then Some n else map_of fs q)"
  by (simp add: map_add_def split: option.split)













text \<open>The clearing on the sample run.\<close>

lemma example_cleared:
  "result_dir_manager star_match example_fs ''out'' ''out/results'' =
     Inr [(''out'', Dir), (''out/discs'', File ''ALL old''), (''out/notes.txt'', File ''keep'')]"
  by (simp add: result_dir_manager_def example_fs_def path_exists_def rm_def rm_artifacts_def
        artifact_exts_def glob_def mkdir_def isdir_def)




text \<open>
  C3.  The claim lets the clearing touch nothing outside the output directory.  On the
  sample run the file \<^verbatim>\<open>discs\<close> of the working directory, which is outside the output
  directory \<^verbatim>\<open>out\<close>, is there before the clearing and gone after it, while the file
  \<^verbatim>\<open>out/discs\<close> an earlier run wrote stays: line 66 names \<^verbatim>\<open>'discs'\<close> where line 104
  writes \<^verbatim>\<open>result_dir + '/discs'\<close>.
\<close>

theorem result_dir_manager_removes_outside_discs:
  "map_of example_fs ''discs'' = Some (File ''mine'')
   \<and> map_of example_fs ''out/discs'' = Some (File ''ALL old'')
   \<and> (\<exists>fs1. result_dir_manager star_match example_fs ''out'' ''out/results'' = Inr fs1
         \<and> map_of fs1 ''discs'' = None
         \<and> map_of fs1 ''out/discs'' = Some (File ''ALL old''))"
  by (simp add: example_cleared) (simp add: example_fs_def)

subsection \<open>The files written after the test loop\<close>

lemma map_of_overwrite:
  "map_of (map (\<lambda>(q, n). if q = p then (q, File s) else (q, n)) fs) r =
     (if r = p then (case map_of fs p of None \<Rightarrow> None | Some old \<Rightarrow> Some (File s))
      else map_of fs r)"
  by (induction fs) auto

text \<open>A write that succeeds changes the content of its file and of no other path.\<close>

lemma write_file_lookup:
  assumes "write_file fs p s = Inr fs'"
  shows "map_of fs' q = (if q = p then Some (File s) else map_of fs q)"
proof (cases "map_of fs p")
  case None
  with assms have "fs' = fs @ [(p, File s)]"
    by (simp add: write_file_def split: if_splits)
  then show ?thesis using map_of_snoc [OF None] by simp
next
  case (Some n)
  with assms obtain old where old: "n = File old"
    by (cases n) (simp_all add: write_file_def)
  with assms Some have "fs' = map (\<lambda>(q, n). if q = p then (q, File s) else (q, n)) fs"
    by (simp add: write_file_def)
  then show ?thesis using Some by (simp add: map_of_overwrite)
qed

text \<open>A write succeeds when the path is no directory and its directory is there.\<close>

lemma write_file_succeeds:
  assumes "\<not> isdir fs p" and "dirname p = [] \<or> isdir fs (dirname p)"
  shows "\<exists>fs'. write_file fs p s = Inr fs'"
proof (cases "map_of fs p")
  case None
  with assms(2) show ?thesis by (auto simp: write_file_def)
next
  case (Some n)
  with assms(1) obtain old where "n = File old" by (cases n) (simp_all add: isdir_def)
  with Some show ?thesis by (simp add: write_file_def)
qed

lemma dirname_discs: "dirname (rd @ ''/discs'') = rd"
  by (simp add: dirname_def)

lemma dirname_report: "dirname (rd @ ''/report'') = rd"
  by (simp add: dirname_def)

lemma example_options:
  "parse_options example_args =
     ([], \<lparr>run_test = [], discs = [], output_dir = ''out'', tmp = ''tmp'', host = None,
           target = None, verbose = False, enable_cleanup = True, view_diffs = False,
           old_result_dir = None, mainloop_jobs = 1\<rparr>)"
  by (simp add: parse_options_def example_args_def)

text \<open>
  C7.  Let the clearing and the test loop have ended without an exception, whatever
  tests were found, none included, and let the loop have left the output directory in
  place with no directory in the way of the two files.  Then \<open>main\<close> writes the file
  \<^verbatim>\<open>discs\<close> into the output directory, its content the discriminants joined by
  spaces; and then, with the text the report generator renders, it writes the file
  \<^verbatim>\<open>report\<close> into the output directory and returns, the \<^verbatim>\<open>discs\<close> file as written.
  Should the report generator raise, the run ends with its exception.
\<close>

theorem main_writes_discs_then_report:
  assumes opts: "opts = snd (parse_options m)"
      and rd: "rd = output_dir opts"
      and ds: "ds = main_discs e opts"
      and tests: "tests = [t \<leftarrow> filter_list matches fs ''tests/*'' (run_test opts). isdir fs t]"
      and cleared: "result_dir_manager matches fs rd (rd @ ''/results'') = Inr fs1"
      and looped: "run_mainloop (map (test_build_cmd executable ds rd opts) tests) rd
                     (rd @ ''/results'') (view_diffs opts) (mainloop_jobs opts) fs1 = Inr fs2"
      and dir: "isdir fs2 rd"
      and discs_free: "\<not> isdir fs2 (rd @ ''/discs'')"
      and report_free: "\<not> isdir fs2 (rd @ ''/report'')"
  shows "\<exists>fs3. write_file fs2 (rd @ ''/discs'') (join '' '' ds) = Inr fs3
           \<and> map_of fs3 (rd @ ''/discs'') = Some (File (join '' '' ds))
           \<and> (case report fs3 rd (old_result_dir opts) of
                 Inl err \<Rightarrow> snd (main matches run_mainloop report e executable m fs) = Inl err
               | Inr txt \<Rightarrow>
                   (\<exists>fs4. snd (main matches run_mainloop report e executable m fs) = Inr fs4
                      \<and> map_of fs4 (rd @ ''/discs'') = Some (File (join '' '' ds))
                      \<and> map_of fs4 (rd @ ''/report'') = Some (File txt)))"
proof -
  from write_file_succeeds [OF discs_free, of "join '' '' ds"] dir
  obtain fs3 where w3: "write_file fs2 (rd @ ''/discs'') (join '' '' ds) = Inr fs3"
    by (auto simp: dirname_discs)
  note look3 = write_file_lookup [OF w3]
  have run: "snd (main matches run_mainloop report e executable m fs) =
               (case report fs3 rd (old_result_dir opts) of
                  Inl err \<Rightarrow> Inl err
                | Inr txt \<Rightarrow> write_file fs3 (rd @ ''/report'') txt)"
    using cleared looped w3 unfolding tests ds rd opts
    by (simp add: main_def Let_def split_beta)
  have dir3: "isdir fs3 rd" using dir by (simp add: isdir_def look3)
  have free3: "\<not> isdir fs3 (rd @ ''/report'')"
    using report_free by (simp add: isdir_def look3)
  have "\<exists>fs4. write_file fs3 (rd @ ''/report'') body = Inr fs4
          \<and> map_of fs4 (rd @ ''/discs'') = Some (File (join '' '' ds))
          \<and> map_of fs4 (rd @ ''/report'') = Some (File body)" for body
  proof -
    from write_file_succeeds [OF free3, of body] dir3
    obtain fs4 where w4: "write_file fs3 (rd @ ''/report'') body = Inr fs4"
      by (auto simp: dirname_report)
    from write_file_lookup [OF w4] look3 w4 show ?thesis by simp
  qed
  then show ?thesis using w3 look3 run by (auto split: sum.split)
qed

text \<open>The sample run finds no test; both files are written.\<close>

theorem main_writes_discs_then_report_witness:
  "\<exists>fs4. snd (main star_match idle_mainloop plain_report example_env ''python'' example_args
             example_fs) = Inr fs4
     \<and> map_of fs4 ''out/discs'' = Some (File ''ALL ALL x86_64-linux x86_64-pc-linux-gnu'')
     \<and> map_of fs4 ''out/report'' = Some (File ''report'')"
proof -
  let ?opts = "snd (parse_options example_args)"
  let ?fs1 = "[(''out'', Dir), (''out/discs'', File ''ALL old''),
               (''out/notes.txt'', File ''keep'')]"
  have rd: "''out'' = output_dir ?opts" by (simp add: example_options)
  have tests: "[] = [t \<leftarrow> filter_list star_match example_fs ''tests/*'' (run_test ?opts).
                      isdir example_fs t]"
    by (simp add: example_options filter_list_def glob_def example_fs_def)
  have looped: "idle_mainloop
       (map (test_build_cmd ''python'' (main_discs example_env ?opts) ''out'' ?opts) [])
       ''out'' (''out'' @ ''/results'') (view_diffs ?opts) (mainloop_jobs ?opts) ?fs1 = Inr ?fs1"
    by (simp add: idle_mainloop_def)
  have cleared: "result_dir_manager star_match example_fs ''out'' (''out'' @ ''/results'')
                   = Inr ?fs1"
    using example_cleared by simp
  have dir: "isdir ?fs1 ''out''" by (simp add: isdir_def)
  have f1: "\<not> isdir ?fs1 (''out'' @ ''/discs'')" by (simp add: isdir_def)
  have f2: "\<not> isdir ?fs1 (''out'' @ ''/report'')" by (simp add: isdir_def)
  have ds: "join '' '' (main_discs example_env ?opts)
              = ''ALL ALL x86_64-linux x86_64-pc-linux-gnu''"
    by (simp add: main_discs_def example_env_def example_options)
  from main_writes_discs_then_report
    [where opts = "?opts" and m = example_args and rd = "''out''"
       and ds = "main_discs example_env ?opts" and e = example_env and tests = "[]"
       and matches = star_match and fs = example_fs and ?fs1.0 = "?fs1"
       and run_mainloop = idle_mainloop and executable = "''python''" and ?fs2.0 = "?fs1"
       and report = plain_report,
     OF refl rd refl tests cleared looped dir f1 f2]
  have "\<exists>fs4. snd (main star_match idle_mainloop plain_report example_env ''python''
                 example_args example_fs) = Inr fs4
          \<and> map_of fs4 (''out'' @ ''/discs'')
                = Some (File (join '' '' (main_discs example_env ?opts)))
          \<and> map_of fs4 (''out'' @ ''/report'') = Some (File ''report'')"
    unfolding plain_report_def by (elim exE conjE) simp
  then show ?thesis unfolding ds by simp
qed

subsection \<open>The entry point\<close>

lemma example_main_asserting:
  "main star_match asserting_mainloop plain_report example_env ''python'' example_args
     example_fs = ([], Inl (AssertionError ''boom''))"
  by (simp add: main_def example_options example_cleared asserting_mainloop_def)

text \<open>
  C6, as stated, asks for an exit with a nonzero-equivalent signal.  On the sample run
  with a main loop that raises an assertion failure, \<open>main\<close> ends with that failure and
  the exit status of the process is 0.
\<close>

theorem assertion_exit_status_zero:
  "snd (main star_match asserting_mainloop plain_report example_env ''python'' example_args
          example_fs) = Inl (AssertionError ''boom'')
   \<and> exit_status (script star_match asserting_mainloop plain_report example_env ''python''
        example_args example_fs) = 0"
  by (simp add: script_def entry_point_def example_main_asserting)

text \<open>
  C6, amended.  When \<open>main\<close> ends with an assertion failure, the entry point catches it
  and prints one more line, the message after \<^verbatim>\<open>ERROR: \<close>; no traceback is shown, and
  the script then reaches its end, so that the exit status is 0 and the printed line is
  the only sign of the error.
\<close>

theorem entry_point_assertion:
  assumes "main matches run_mainloop report e executable m fs
             = (printed, Inl (AssertionError msg))"
  shows "script matches run_mainloop report e executable m fs
           = \<lparr>stdout = printed @ [''ERROR: '' @ msg], traceback = None, exit_status = 0\<rparr>"
  using assms by (simp add: script_def entry_point_def)

theorem entry_point_assertion_witness:
  "script star_match asserting_mainloop plain_report example_env ''python'' example_args
     example_fs = \<lparr>stdout = [''ERROR: boom''], traceback = None, exit_status = 0\<rparr>"
  using entry_point_assertion [OF example_main_asserting] by simp

end
